theory Spec2Isabelle
  imports Main "HOL-Library.Word"
begin

section \<open>Data model\<close>

text \<open>
  The streaming MongoDB extractor of BlockDB exists in two generations in the sources:
  \<^item> \<^verbatim>\<open>plugins/server/mongodb/extractor.go\<close>: \<^verbatim>\<open>RequestExtractor\<close>,
    \<^verbatim>\<open>ResponseExtractor\<close>, \<^verbatim>\<open>decodeHeader\<close> and an \<^verbatim>\<open>extractMessage\<close>
    whose per-opcode constructors cannot fail;
  \<^item> the later file (\<^verbatim>\<open>unnamed/part_001\<close>): one \<^verbatim>\<open>Extractor\<close> used for both
    directions, dialog identity, the ledger writer, and an \<^verbatim>\<open>extractMessage\<close> whose
    decoders return errors.

  Bytes are \<open>8 word\<close>, a Go slice is a list, \<^verbatim>\<open>int32\<close>/\<^verbatim>\<open>uint32\<close> are \<open>32 word\<close>
  (read with \<open>sint\<close> resp. \<open>unat\<close>), a nil pointer is \<open>None\<close>, a Go \<^verbatim>\<open>error\<close> is a value
  of the datatype \<open>error\<close>, and a returned pair \<^verbatim>\<open>(x, err)\<close> is a sum with \<open>Inl\<close> for
  the error.
\<close>

type_synonym byte = "8 word"

text \<open>
  \<^verbatim>\<open>message.MessageHeader\<close>. The field \<^verbatim>\<open>MessageSize\<close> is compared as
  \<^verbatim>\<open>int32\<close> in \<^verbatim>\<open>extractor.go\<close> and as \<^verbatim>\<open>uint32\<close> in the later file; the
  record keeps the 32 bits and each use site reads them with the signedness of its source.
\<close>

record MessageHeader =
  MessageSize :: "32 word"
  RequestID :: "32 word"
  ResponseTo :: "32 word"
  OpCode :: "32 word"

text \<open>\<^verbatim>\<open>message.Message\<close>: the decoded payload \<^verbatim>\<open>MongoMsg\<close> and the derived fields.\<close>

record 'mm Message =
  DBUser :: string
  DB :: string
  Collection :: string
  Op :: string
  DocID :: string
  MongoMsg :: "'mm"

text \<open>
  \<^verbatim>\<open>multiplexer.DialogContext\<close>, as far as the extractor uses it: the field
  \<^verbatim>\<open>User\<close> and the string \<^verbatim>\<open>Source.RemoteAddr().String()\<close>.
\<close>

record DialogContext =
  User :: string
  Source :: string

text \<open>
  \<^verbatim>\<open>processors.LogEvent\<close>. \<^verbatim>\<open>Data\<close> is an \<^verbatim>\<open>interface{}\<close>: the later file stores
  the message, \<^verbatim>\<open>extractor.go\<close> stores a string.
\<close>

datatype 'mm event_data = DataMessage "'mm Message" | DataString string

record 'mm LogEvent =
  Type :: string
  Ip :: string
  Data :: "'mm event_data"
  PrimaryKey :: string
  Timestamp :: int
  Identity :: string

datatype error =
    NotEnoughLength nat nat
  | LengthMismatch nat nat
  | NotImplemented string
  | UnknownOpcode "32 word"
  | InitMongoMessage error
  | PackageError string

text \<open>
  The package \<^verbatim>\<open>message\<close> is not among the sources. What the extractor takes from it
  is a parameter of the model: the constant \<^verbatim>\<open>HeaderLen\<close>, the eleven opcode constants,
  \<^verbatim>\<open>DecodeHeader\<close>, the three decoders that the later \<^verbatim>\<open>extractMessage\<close> calls, and the
  method \<^verbatim>\<open>ExtractBasic\<close> of the decoded message.
\<close>

record wire_consts =
  HeaderLen :: nat
  OpReply :: "32 word"
  OpUpdate :: "32 word"
  OpInsert :: "32 word"
  Reserved :: "32 word"
  OpQuery :: "32 word"
  OpGetMore :: "32 word"
  OpDelete :: "32 word"
  OpKillCursors :: "32 word"
  OpCommand :: "32 word"
  OpCommandReply :: "32 word"
  OpMsg :: "32 word"

record 'mm message_pkg = wire_consts +
  DecodeHeader :: "byte list \<Rightarrow> error + MessageHeader"
  NewReplyMessage :: "MessageHeader \<Rightarrow> byte list \<Rightarrow> error + 'mm"
  NewQueryMessage :: "MessageHeader \<Rightarrow> byte list \<Rightarrow> error + 'mm"
  NewMsgMessage :: "MessageHeader \<Rightarrow> byte list \<Rightarrow> error + 'mm"
  ExtractBasic :: "'mm \<Rightarrow> string \<times> string \<times> string \<times> string \<times> string"

section \<open>The later extractor (\<^verbatim>\<open>unnamed/part_001\<close>)\<close>

text \<open>
  The \<^verbatim>\<open>switch header.OpCode\<close> of \<^verbatim>\<open>extractMessage\<close>, in the order of its cases.
  \<open>None\<close> is the \<^verbatim>\<open>default\<close> case, which returns at once; \<open>Some r\<close> is the pair
  \<^verbatim>\<open>(mm, err)\<close> that the case leaves behind.
\<close>

definition dispatch :: "'mm message_pkg \<Rightarrow> MessageHeader \<Rightarrow> byte list \<Rightarrow> (error + 'mm) option" where
  "dispatch M h b =
    (if OpCode h = OpReply M then Some (NewReplyMessage M h b)
     else if OpCode h = OpUpdate M then Some (Inl (NotImplemented ''OpUpdate''))
     else if OpCode h = OpInsert M then Some (Inl (NotImplemented ''OpInsert''))
     else if OpCode h = Reserved M then Some (Inl (NotImplemented ''Reserved''))
     else if OpCode h = OpQuery M then Some (NewQueryMessage M h b)
     else if OpCode h = OpGetMore M then Some (Inl (NotImplemented ''OpGetMore''))
     else if OpCode h = OpDelete M then Some (Inl (NotImplemented ''OpDelete''))
     else if OpCode h = OpKillCursors M then Some (Inl (NotImplemented ''OpKillCursors''))
     else if OpCode h = OpCommand M then Some (Inl (NotImplemented ''OpCommand''))
     else if OpCode h = OpCommandReply M then Some (Inl (NotImplemented ''OpCommandReply''))
     else if OpCode h = OpMsg M then Some (NewMsgMessage M h b)
     else None)"

definition extractMessage :: "'mm message_pkg \<Rightarrow> MessageHeader \<Rightarrow> byte list \<Rightarrow> error + 'mm Message" where
  "extractMessage M h b =
    (if length b \<noteq> unat (MessageSize h)
     then Inl (LengthMismatch (length b) (unat (MessageSize h)))
     else
       (case dispatch M h b of
          None \<Rightarrow> Inl (UnknownOpcode (OpCode h))
        | Some (Inl err) \<Rightarrow> Inl (InitMongoMessage err)
        | Some (Inr mm) \<Rightarrow>
            (case ExtractBasic M mm of
               (user, db, collection, op, docId) \<Rightarrow>
                 Inr \<lparr>DBUser = user, DB = db, Collection = collection, Op = op,
                      DocID = docId, MongoMsg = mm\<rparr>)))"

text \<open>
  \<^verbatim>\<open>Extractor\<close>. The ledger writer is modelled by the list of events that a call
  enqueues, the lock is not modelled. \<^verbatim>\<open>context\<close> and \<^verbatim>\<open>extract\<close> carry a suffix
  because the plain names are taken.
\<close>

record 'mm Extractor =
  context_d :: DialogContext
  header :: "MessageHeader option"
  buf :: "byte list"
  extract_f :: "MessageHeader \<Rightarrow> byte list \<Rightarrow> error + 'mm Message"

definition NewExtractor :: "'mm message_pkg \<Rightarrow> DialogContext \<Rightarrow> 'mm Extractor" where
  "NewExtractor M c = \<lparr>context_d = c, header = None, buf = [], extract_f = extractMessage M\<rparr>"

definition init :: "MessageHeader \<Rightarrow> 'mm Extractor \<Rightarrow> 'mm Extractor" where
  "init h e = e\<lparr>header := Some h\<rparr>"

definition reset :: "'mm Extractor \<Rightarrow> 'mm Extractor" where
  "reset e =
    (case header e of
       None \<Rightarrow> e\<lparr>buf := []\<rparr>
     | Some h \<Rightarrow> e\<lparr>buf := drop (unat (MessageSize h)) (buf e), header := None\<rparr>)"

text \<open>
  \<^verbatim>\<open>Extractor.Write\<close>. The result is the extractor after the call, the returned
  \<^verbatim>\<open>n\<close>, the returned error (\<open>None\<close> for nil) and the events handed to
  \<^verbatim>\<open>EnqueueSendToLedger\<close> during the call. \<open>now\<close> is the value of
  \<^verbatim>\<open>time.Now().Unix()\<close>. \<^verbatim>\<open>uint32(len(e.buf))\<close> is \<open>of_nat\<close> into \<open>32 word\<close>,
  which truncates as the conversion does.
\<close>

definition Write :: "'mm message_pkg \<Rightarrow> int \<Rightarrow> byte list \<Rightarrow> 'mm Extractor \<Rightarrow>
    'mm Extractor \<times> nat \<times> error option \<times> 'mm LogEvent list" where
  "Write M now p e0 =
    (let b = p;
         e1 = e0\<lparr>buf := buf e0 @ b\<rparr>
     in
       (case (if header e1 = None \<and> length (buf e1) > HeaderLen M
              then (case DecodeHeader M (buf e1) of
                      Inl err \<Rightarrow> Inl err
                    | Inr h \<Rightarrow> Inr (init h e1))
              else Inr e1) of
          Inl err \<Rightarrow> (e1, length b, Some err, [])
        | Inr e2 \<Rightarrow>
            (case header e2 of
               None \<Rightarrow> (e2, length b, None, [])
             | Some h \<Rightarrow>
                 if (of_nat (length (buf e2)) :: 32 word) < MessageSize h
                 then (e2, length b, None, [])
                 else
                   (case extract_f e2 h (take (unat (MessageSize h)) (buf e2)) of
                      Inl err \<Rightarrow> (e2, length b, Some err, [])
                    | Inr msg0 \<Rightarrow>
                        (let e3 = (if DBUser msg0 \<noteq> ''''
                                   then e2\<lparr>context_d := (context_d e2)\<lparr>User := DBUser msg0\<rparr>\<rparr>
                                   else e2);
                             msg = (if DBUser msg0 \<noteq> ''''
                                    then msg0
                                    else msg0\<lparr>DBUser := User (context_d e2)\<rparr>);
                             logEvent = \<lparr>Type = ''mongo'',
                                         Ip = Source (context_d e3),
                                         Data = DataMessage msg,
                                         PrimaryKey = DocID msg,
                                         Timestamp = now,
                                         Identity = DBUser msg\<rparr>
                         in (reset e3, length b, None, [logEvent]))))))"

text \<open>
  \<^verbatim>\<open>ExtractorFactory.GetInstance\<close> and the two writers of the observer: both
  directions get an \<^verbatim>\<open>Extractor\<close> built from the same context value.
\<close>

record 'mm ExtractorObserver =
  req :: "'mm Extractor"
  resp :: "'mm Extractor"

definition GetInstance :: "'mm message_pkg \<Rightarrow> DialogContext \<Rightarrow> 'mm ExtractorObserver" where
  "GetInstance M c = \<lparr>req = NewExtractor M c, resp = NewExtractor M c\<rparr>"

definition GetIncomingWriter :: "'mm ExtractorObserver \<Rightarrow> 'mm Extractor" where
  "GetIncomingWriter ob = req ob"

definition GetOutgoingWriter :: "'mm ExtractorObserver \<Rightarrow> 'mm Extractor" where
  "GetOutgoingWriter ob = resp ob"



section \<open>The earlier extractor (\<^verbatim>\<open>plugins/server/mongodb/extractor.go\<close>)\<close>











text \<open>\<^verbatim>\<open>ResponseExtractor\<close> and its \<^verbatim>\<open>Write\<close>, which only reports the length.\<close>

record ResponseExtractor =
  context_s :: DialogContext

definition NewResponseExtractor :: "DialogContext \<Rightarrow> ResponseExtractor" where
  "NewResponseExtractor c = \<lparr>context_s = c\<rparr>"

definition ResponseExtractor_Write :: "byte list \<Rightarrow> ResponseExtractor \<Rightarrow> ResponseExtractor \<times> nat \<times> error option" where
  "ResponseExtractor_Write p e = (e, length p, None)"

section \<open>Feeding a stream\<close>

text \<open>
  The relay calls \<^verbatim>\<open>Write\<close> once for each chunk it has read, in order. \<open>feed\<close> runs
  the calls on a list of chunks, each with the clock value of its call, and returns the
  extractor after the last call and what every call returned.
\<close>

fun feed :: "'mm message_pkg \<Rightarrow> 'mm Extractor \<Rightarrow> (int \<times> byte list) list \<Rightarrow>
    'mm Extractor \<times> (nat \<times> error option \<times> 'mm LogEvent list) list" where
  "feed M e [] = (e, [])"
| "feed M e ((now, p) # cs) =
    (case Write M now p e of
       (e', r) \<Rightarrow> (case feed M e' cs of (e'', rs) \<Rightarrow> (e'', r # rs)))"

definition emitted :: "(nat \<times> error option \<times> 'mm LogEvent list) list \<Rightarrow> 'mm LogEvent list" where
  "emitted rs = concat (map (\<lambda>r. snd (snd r)) rs)"

definition errors :: "(nat \<times> error option \<times> 'mm LogEvent list) list \<Rightarrow> error option list" where
  "errors rs = map (\<lambda>r. fst (snd r)) rs"

section \<open>An instance of the missing package\<close>

text \<open>
  Modelled from the spec: the package \<^verbatim>\<open>message\<close> (\<^verbatim>\<open>HeaderLen\<close>, the opcode
  constants, \<^verbatim>\<open>DecodeHeader\<close>, the per-opcode decoders, \<^verbatim>\<open>ExtractBasic\<close>) and
  \<^verbatim>\<open>bytes.GetInt32\<close> are not among the sources. The spec gives the wire format: every
  message begins with a fixed-size header of four 32-bit fields (size, requestId,
  responseTo, opcode), followed by size minus header-size bytes of payload, and header
  decoding requires at least the header length and is a function of its input bytes.
  The instance below follows it, with the byte order (little-endian) and the opcode
  numbers of the MongoDB wire protocol. The theorems of this theory hold for every
  package; the instance only serves to evaluate them at concrete inputs. Its decoded
  message is the payload, and its \<^verbatim>\<open>ExtractBasic\<close> reports the user \<open>''alice''\<close> when
  the payload begins with the byte 1, the user \<open>''bob''\<close> when it begins with the byte 2,
  and no user otherwise.
\<close>

definition le32 :: "byte list \<Rightarrow> nat \<Rightarrow> 32 word" where
  "le32 b pos =
     word_of_nat (unat (b ! pos) + 256 * unat (b ! (pos + 1))
       + 65536 * unat (b ! (pos + 2)) + 16777216 * unat (b ! (pos + 3)))"

definition mongo_DecodeHeader :: "byte list \<Rightarrow> error + MessageHeader" where
  "mongo_DecodeHeader b =
    (if length b < 16 then Inl (NotEnoughLength 16 (length b))
     else Inr \<lparr>MessageSize = le32 b 0, RequestID = le32 b 4,
               ResponseTo = le32 b 8, OpCode = le32 b 12\<rparr>)"

definition payload_decoder :: "MessageHeader \<Rightarrow> byte list \<Rightarrow> error + byte list" where
  "payload_decoder h b = Inr (drop 16 b)"

definition payload_basic :: "byte list \<Rightarrow> string \<times> string \<times> string \<times> string \<times> string" where
  "payload_basic pl =
    (if take 1 pl = [1] then ''alice'' else if take 1 pl = [2] then ''bob'' else '''',
     ''db'', ''coll'', ''op'', ''id'')"

definition mongo :: "(byte list) message_pkg" where
  "mongo =
    \<lparr>HeaderLen = 16, OpReply = 1, OpUpdate = 2001, OpInsert = 2002, Reserved = 2003,
     OpQuery = 2004, OpGetMore = 2005, OpDelete = 2006, OpKillCursors = 2007,
     OpCommand = 2010, OpCommandReply = 2011, OpMsg = 2013,
     DecodeHeader = mongo_DecodeHeader,
     NewReplyMessage = payload_decoder,
     NewQueryMessage = payload_decoder,
     NewMsgMessage = payload_decoder,
     ExtractBasic = payload_basic\<rparr>"




section \<open>Notions used in the statements\<close>

text \<open>
  The identity that \<^verbatim>\<open>Write\<close> settles on for a decoded message in a dialog context,
  and the event it builds from them.
\<close>

definition identity_of :: "DialogContext \<Rightarrow> 'mm Message \<Rightarrow> string" where
  "identity_of c msg0 = (if DBUser msg0 \<noteq> '''' then DBUser msg0 else User c)"

definition log_event :: "DialogContext \<Rightarrow> int \<Rightarrow> 'mm Message \<Rightarrow> 'mm LogEvent" where
  "log_event c now msg0 =
    \<lparr>Type = ''mongo'', Ip = Source c,
     Data = DataMessage (msg0\<lparr>DBUser := identity_of c msg0\<rparr>),
     PrimaryKey = DocID msg0, Timestamp = now, Identity = identity_of c msg0\<rparr>"

text \<open>
  \<open>holds M e p h\<close>: once the chunk \<open>p\<close> is appended, the extractor \<open>e\<close> has the header
  \<open>h\<close> in hand, because it held it before the call or because the call decodes it.
\<close>

definition holds :: "'mm message_pkg \<Rightarrow> 'mm Extractor \<Rightarrow> byte list \<Rightarrow> MessageHeader \<Rightarrow> bool" where
  "holds M e p h \<longleftrightarrow>
     header e = Some h \<or>
     (header e = None \<and> HeaderLen M < length (buf e @ p) \<and> DecodeHeader M (buf e @ p) = Inr h)"

text \<open>
  \<open>frames M m h\<close>: the bytes \<open>m\<close> are one message with header \<open>h\<close>. The header declares
  the length of \<open>m\<close>, and \<^verbatim>\<open>DecodeHeader\<close> reads \<open>h\<close> off every buffer that is longer than
  a header and begins with the header bytes of \<open>m\<close>.
\<close>

definition frames :: "'mm message_pkg \<Rightarrow> byte list \<Rightarrow> MessageHeader \<Rightarrow> bool" where
  "frames M m h \<longleftrightarrow>
     unat (MessageSize h) = length m \<and>
     (\<forall>b. HeaderLen M < length b \<and> take (HeaderLen M) b = take (HeaderLen M) m
          \<longrightarrow> DecodeHeader M b = Inr h)"

text \<open>
  The extractor of a dialog with context \<open>c\<close> that has taken in the first \<open>k\<close> bytes of
  the message \<open>m\<close>, and the extractor between two messages.
\<close>

definition mid :: "'mm message_pkg \<Rightarrow> DialogContext \<Rightarrow> byte list \<Rightarrow> MessageHeader \<Rightarrow> nat \<Rightarrow> 'mm Extractor" where
  "mid M c m h k =
    \<lparr>context_d = c, header = (if HeaderLen M < k then Some h else None),
     buf = take k m, extract_f = extractMessage M\<rparr>"

definition idle :: "'mm message_pkg \<Rightarrow> DialogContext \<Rightarrow> 'mm Extractor" where
  "idle M c = \<lparr>context_d = c, header = None, buf = [], extract_f = extractMessage M\<rparr>"

text \<open>
  The opcodes of the \<^verbatim>\<open>switch\<close> in the words of the spec: the implemented ones with
  their decoders, the recognized but unimplemented ones with the name that the error
  message carries, and the message that the shared \<^verbatim>\<open>ExtractBasic\<close> yields.
\<close>

definition implemented :: "'mm message_pkg \<Rightarrow> (32 word \<times> (MessageHeader \<Rightarrow> byte list \<Rightarrow> error + 'mm)) list" where
  "implemented M =
    [(OpReply M, NewReplyMessage M), (OpQuery M, NewQueryMessage M), (OpMsg M, NewMsgMessage M)]"

definition unimplemented :: "'mm message_pkg \<Rightarrow> (32 word \<times> string) list" where
  "unimplemented M =
    [(OpUpdate M, ''OpUpdate''), (OpInsert M, ''OpInsert''), (Reserved M, ''Reserved''),
     (OpGetMore M, ''OpGetMore''), (OpDelete M, ''OpDelete''),
     (OpKillCursors M, ''OpKillCursors''), (OpCommand M, ''OpCommand''),
     (OpCommandReply M, ''OpCommandReply'')]"

definition recognized :: "'mm message_pkg \<Rightarrow> 32 word list" where
  "recognized M =
    [OpReply M, OpUpdate M, OpInsert M, Reserved M, OpQuery M, OpGetMore M, OpDelete M,
     OpKillCursors M, OpCommand M, OpCommandReply M, OpMsg M]"

definition basic_message :: "'mm message_pkg \<Rightarrow> 'mm \<Rightarrow> 'mm Message" where
  "basic_message M mm =
    (case ExtractBasic M mm of
       (user, db, collection, op, docId) \<Rightarrow>
         \<lparr>DBUser = user, DB = db, Collection = collection, Op = op,
          DocID = docId, MongoMsg = mm\<rparr>)"




section \<open>Sample inputs\<close>

text \<open>
  Byte strings for the instance \<open>mongo\<close>: a query (opcode 2004) whose payload names
  the user alice, a query whose payload names the user bob, a message (opcode 2013)
  without user, a message with the opcode \<open>0xFFFF\<close>, an
  update (opcode 2001), a reply (opcode 1) that consists of its header only, and 17 bytes
  whose header declares the size 5.
\<close>

definition sample_context :: DialogContext where
  "sample_context = \<lparr>User = '''', Source = ''10.0.0.7:40000''\<rparr>"

definition sample_query :: "byte list" where
  "sample_query = [20,0,0,0, 1,0,0,0, 255,255,255,255, 212,7,0,0, 1,2,3,4]"

definition sample_query_bob :: "byte list" where
  "sample_query_bob = [20,0,0,0, 7,0,0,0, 0,0,0,0, 212,7,0,0, 2,2,3,4]"

definition sample_msg :: "byte list" where
  "sample_msg = [20,0,0,0, 2,0,0,0, 0,0,0,0, 221,7,0,0, 0,9,9,9]"

definition sample_unknown :: "byte list" where
  "sample_unknown = [20,0,0,0, 3,0,0,0, 0,0,0,0, 255,255,0,0, 7,7,7,7]"

definition sample_update :: "byte list" where
  "sample_update = [20,0,0,0, 4,0,0,0, 0,0,0,0, 209,7,0,0, 8,8,8,8]"

definition sample_bare :: "byte list" where
  "sample_bare = [16,0,0,0, 5,0,0,0, 0,0,0,0, 1,0,0,0]"

definition sample_small :: "byte list" where
  "sample_small = [5,0,0,0, 6,0,0,0, 0,0,0,0, 212,7,0,0, 9]"

definition sample_header :: "32 word \<Rightarrow> 32 word \<Rightarrow> 32 word \<Rightarrow> 32 word \<Rightarrow> MessageHeader" where
  "sample_header sz rid rto op = \<lparr>MessageSize = sz, RequestID = rid, ResponseTo = rto, OpCode = op\<rparr>"

section \<open>How one call of \<^verbatim>\<open>Write\<close> proceeds\<close>

lemma uint32_len_less:
  "n < 2 ^ 32 \<Longrightarrow> ((of_nat n :: 32 word) < s) = (n < unat s)"
  by (simp add: word_less_nat_alt unat_of_nat)

lemma uint32_len_less_small:
  "n < unat (s :: 32 word) \<Longrightarrow> (of_nat n :: 32 word) < s"
proof -
  assume a: "n < unat s"
  have "unat s < 2 ^ 32" using unsigned_less [of s] by simp
  with a have "n < 2 ^ 32" by linarith
  with a show ?thesis by (simp add: uint32_len_less)
qed

lemma Write_n: "fst (snd (Write M now p e)) = length p"
  by (simp add: Write_def Let_def split: sum.splits option.splits)

lemma Write_short:
  "header e = None \<Longrightarrow> length (buf e @ p) \<le> HeaderLen M \<Longrightarrow>
   Write M now p e = (e\<lparr>buf := buf e @ p\<rparr>, length p, None, [])"
  by (simp add: Write_def Let_def)

lemma Write_wait:
  "header e = Some h \<Longrightarrow> length (buf e @ p) < unat (MessageSize h) \<Longrightarrow>
   Write M now p e = (e\<lparr>buf := buf e @ p\<rparr>, length p, None, [])"
  using uint32_len_less_small [of "length (buf e @ p)" "MessageSize h"]
  by (simp add: Write_def Let_def)


lemma Write_decode_wait:
  "header e = None \<Longrightarrow> HeaderLen M < length (buf e @ p) \<Longrightarrow>
   DecodeHeader M (buf e @ p) = Inr h \<Longrightarrow> length (buf e @ p) < unat (MessageSize h) \<Longrightarrow>
   Write M now p e = (e\<lparr>buf := buf e @ p, header := Some h\<rparr>, length p, None, [])"
  using uint32_len_less_small [of "length (buf e @ p)" "MessageSize h"]
  by (simp add: Write_def Let_def init_def)

lemma Write_extract_error:
  "holds M e p h \<Longrightarrow> unat (MessageSize h) \<le> length (buf e @ p) \<Longrightarrow> length (buf e @ p) < 2 ^ 32 \<Longrightarrow>
   extract_f e h (take (unat (MessageSize h)) (buf e @ p)) = Inl err \<Longrightarrow>
   Write M now p e = (e\<lparr>buf := buf e @ p, header := Some h\<rparr>, length p, Some err, [])"
  using uint32_len_less [of "length (buf e @ p)" "MessageSize h"]
  by (auto simp add: holds_def Write_def Let_def init_def)

lemma Write_complete:
  "holds M e p h \<Longrightarrow> unat (MessageSize h) \<le> length (buf e @ p) \<Longrightarrow> length (buf e @ p) < 2 ^ 32 \<Longrightarrow>
   extract_f e h (take (unat (MessageSize h)) (buf e @ p)) = Inr msg0 \<Longrightarrow>
   Write M now p e =
     (e\<lparr>buf := drop (unat (MessageSize h)) (buf e @ p), header := None,
        context_d := (context_d e)\<lparr>User := identity_of (context_d e) msg0\<rparr>\<rparr>,
      length p, None, [log_event (context_d e) now msg0])"
  using uint32_len_less [of "length (buf e @ p)" "MessageSize h"]
  by (auto simp add: holds_def Write_def Let_def init_def reset_def identity_of_def log_event_def)

lemma frames_size: "frames M m h \<Longrightarrow> unat (MessageSize h) = length m"
  by (simp add: frames_def)

lemma frames_bound: "frames M m h \<Longrightarrow> length m < 2 ^ 32"
  using unsigned_less [of "MessageSize h", where ?'a = nat] by (simp add: frames_def)

lemma frames_decode:
  "frames M m h \<Longrightarrow> HeaderLen M < length b \<Longrightarrow> take (HeaderLen M) b = take (HeaderLen M) m \<Longrightarrow>
   DecodeHeader M b = Inr h"
  by (simp add: frames_def)

lemma mid_0: "mid M c m h 0 = NewExtractor M c"
  by (simp add: mid_def NewExtractor_def)

lemma Write_mid_partial:
  assumes fr: "frames M m h" and lt: "k + length p < length m"
    and p: "p = take (length p) (drop k m)"
  shows "Write M now p (mid M c m h k) = (mid M c m h (k + length p), length p, None, [])"
proof -
  let ?e = "mid M c m h k"
  have app: "buf ?e @ p = take (k + length p) m"
    using p by (simp add: mid_def take_add)
  have len: "length (buf ?e @ p) = k + length p"
    using lt by (simp add: app)
  show ?thesis
  proof (cases "HeaderLen M < k")
    case True
    then have "header ?e = Some h" by (simp add: mid_def)
    moreover have "length (buf ?e @ p) < unat (MessageSize h)"
      using lt len frames_size [OF fr] by simp
    ultimately have "Write M now p ?e = (?e\<lparr>buf := buf ?e @ p\<rparr>, length p, None, [])"
      by (rule Write_wait)
    then show ?thesis using True by (simp only: app) (simp add: mid_def)
  next
    case False
    then have hd: "header ?e = None" by (simp add: mid_def)
    show ?thesis
    proof (cases "k + length p \<le> HeaderLen M")
      case True
      then have "length (buf ?e @ p) \<le> HeaderLen M" using len by simp
      with hd have "Write M now p ?e = (?e\<lparr>buf := buf ?e @ p\<rparr>, length p, None, [])"
        by (rule Write_short)
      then show ?thesis using True False by (simp only: app) (simp add: mid_def)
    next
      case over: False
      then have gt: "HeaderLen M < length (buf ?e @ p)" using len by simp
      have "take (HeaderLen M) (buf ?e @ p) = take (HeaderLen M) m"
        using over by (simp only: app) (simp add: min_def)
      with fr gt have dec: "DecodeHeader M (buf ?e @ p) = Inr h"
        by (rule frames_decode)
      have "length (buf ?e @ p) < unat (MessageSize h)"
        using lt len frames_size [OF fr] by simp
      with hd gt dec
      have "Write M now p ?e = (?e\<lparr>buf := buf ?e @ p, header := Some h\<rparr>, length p, None, [])"
        by (rule Write_decode_wait)
      then show ?thesis using over by (simp only: app) (simp add: mid_def)
    qed
  qed
qed

lemma Write_mid_final:
  assumes fr: "frames M m h" and long: "HeaderLen M < length m"
    and ex: "extractMessage M h m = Inr msg0"
    and k: "k < length m" and p: "p = drop k m"
  shows "Write M now p (mid M c m h k) =
           (idle M (c\<lparr>User := identity_of c msg0\<rparr>), length p, None, [log_event c now msg0])"
proof -
  let ?e = "mid M c m h k"
  have app: "buf ?e @ p = m" using p by (simp add: mid_def)
  have dec: "DecodeHeader M m = Inr h"
    using fr long by (rule frames_decode) simp
  have hold: "holds M ?e p h"
    using long dec by (simp only: holds_def app) (simp add: mid_def)
  have sz: "unat (MessageSize h) \<le> length (buf ?e @ p)"
    using frames_size [OF fr] by (simp only: app)
  have bd: "length (buf ?e @ p) < 2 ^ 32"
    using frames_bound [OF fr] by (simp only: app)
  have exf: "extract_f ?e h (take (unat (MessageSize h)) (buf ?e @ p)) = Inr msg0"
    using ex frames_size [OF fr] by (simp only: app) (simp add: mid_def)
  show ?thesis
    using Write_complete [OF hold sz bd exf, of now] frames_size [OF fr]
    by (simp only: app) (simp add: mid_def idle_def)
qed

lemma feed_idle:
  "header e = None \<Longrightarrow> buf e = [] \<Longrightarrow> concat (map snd cs) = [] \<Longrightarrow>
   feed M e cs = (e, map (\<lambda>_. (0, None, [])) cs)"
proof (induction cs)
  case Nil
  then show ?case by simp
next
  case (Cons a cs)
  obtain t p where a: "a = (t, p)" by (cases a)
  with Cons.prems have pe: "p = []" and rest: "concat (map snd cs) = []" by simp_all
  have "Write M t [] e = (e\<lparr>buf := buf e @ []\<rparr>, length ([]::byte list), None, [])"
    using Cons.prems(1) by (rule Write_short) (simp add: Cons.prems(2))
  then have w: "Write M t [] e = (e, 0, None, [])" by simp
  show ?case using Cons.IH [OF Cons.prems(1,2) rest] w by (simp add: a pe)
qed

lemma feed_mid:
  assumes fr: "frames M m h" and long: "HeaderLen M < length m"
    and ex: "extractMessage M h m = Inr msg0"
  shows "k < length m \<Longrightarrow> concat (map snd cs) = drop k m \<Longrightarrow>
         \<exists>t rs. feed M (mid M c m h k) cs = (idle M (c\<lparr>User := identity_of c msg0\<rparr>), rs) \<and>
                emitted rs = [log_event c t msg0] \<and> t \<in> fst ` set cs \<and>
                errors rs = map (\<lambda>_. None) cs \<and> map fst rs = map (\<lambda>x. length (snd x)) cs"
proof (induction cs arbitrary: k)
  case Nil
  then show ?case by simp
next
  case (Cons a cs)
  obtain t p where a: "a = (t, p)" by (cases a)
  from Cons.prems a have cat: "p @ concat (map snd cs) = drop k m" by simp
  then have p: "p = take (length p) (drop k m)"
    by (metis append_eq_conv_conj)
  from cat have rest: "concat (map snd cs) = drop (k + length p) m"
    by (metis append_eq_conv_conj drop_drop add.commute)
  from cat have "length p \<le> length (drop k m)"
    by (metis length_append le_add1)
  then have le: "k + length p \<le> length m" using Cons.prems(1) by simp
  show ?case
  proof (cases "k + length p < length m")
    case True
    have w: "Write M t p (mid M c m h k) = (mid M c m h (k + length p), length p, None, [])"
      using fr True p by (rule Write_mid_partial)
    from Cons.IH [OF True rest] obtain t' rs where
      f: "feed M (mid M c m h (k + length p)) cs = (idle M (c\<lparr>User := identity_of c msg0\<rparr>), rs)"
      and ev: "emitted rs = [log_event c t' msg0]" and t': "t' \<in> fst ` set cs"
      and er: "errors rs = map (\<lambda>_. None) cs" and n: "map fst rs = map (\<lambda>x. length (snd x)) cs"
      by blast
    show ?thesis
      using w f ev t' er n by (auto simp add: a emitted_def errors_def)
  next
    case False
    with le have eq: "k + length p = length m" by simp
    with rest have "concat (map snd cs) = []" by simp
    moreover from cat this have pd: "p = drop k m" by simp
    have w: "Write M t p (mid M c m h k) =
           (idle M (c\<lparr>User := identity_of c msg0\<rparr>), length p, None, [log_event c t msg0])"
      using fr long ex Cons.prems(1) pd by (rule Write_mid_final)
    ultimately have f: "feed M (idle M (c\<lparr>User := identity_of c msg0\<rparr>)) cs =
        (idle M (c\<lparr>User := identity_of c msg0\<rparr>), map (\<lambda>_. (0, None, [])) cs)"
      by (intro feed_idle) (simp_all add: idle_def)
    have z: "\<And>x. x \<in> set cs \<Longrightarrow> snd x = []"
      using \<open>concat (map snd cs) = []\<close> by auto
    show ?thesis
      using w f z by (auto simp add: a emitted_def errors_def comp_def)
  qed
qed

section \<open>Facts about the instance\<close>

lemma mongo_simps:
  "HeaderLen mongo = 16" "DecodeHeader mongo = mongo_DecodeHeader"
  "OpReply mongo = 1" "OpUpdate mongo = 2001" "OpInsert mongo = 2002" "Reserved mongo = 2003"
  "OpQuery mongo = 2004" "OpGetMore mongo = 2005" "OpDelete mongo = 2006"
  "OpKillCursors mongo = 2007" "OpCommand mongo = 2010" "OpCommandReply mongo = 2011"
  "OpMsg mongo = 2013"
  "NewReplyMessage mongo = payload_decoder" "NewQueryMessage mongo = payload_decoder"
  "NewMsgMessage mongo = payload_decoder" "ExtractBasic mongo = payload_basic"
  by (simp_all add: mongo_def)

lemma le32_take: "pos + 4 \<le> n \<Longrightarrow> le32 (take n b) pos = le32 b pos"
  by (simp add: le32_def)

lemma mongo_DecodeHeader_take:
  "16 \<le> length b \<Longrightarrow> mongo_DecodeHeader b = mongo_DecodeHeader (take 16 b)"
  by (simp add: mongo_DecodeHeader_def le32_take)

lemma frames_mongo:
  "16 \<le> length m \<Longrightarrow> mongo_DecodeHeader (take 16 m) = Inr h \<Longrightarrow> unat (MessageSize h) = length m \<Longrightarrow>
   frames mongo m h"
  unfolding frames_def mongo_simps
proof (intro conjI allI impI)
  fix b :: "byte list"
  assume m: "16 \<le> length m" and d: "mongo_DecodeHeader (take 16 m) = Inr h"
    and "16 < length b \<and> take 16 b = take 16 m"
  then have "16 \<le> length b" and "take 16 b = take 16 m" by simp_all
  then show "mongo_DecodeHeader b = Inr h"
    using d mongo_DecodeHeader_take [of b] by simp
qed

lemma distinct_recognized_mongo: "distinct (recognized mongo)"
  by (simp add: recognized_def mongo_simps)

lemmas sample_defs = sample_context_def sample_query_def sample_query_bob_def sample_msg_def
  sample_unknown_def
  sample_update_def sample_bare_def sample_small_def sample_header_def

lemmas mongo_eval = mongo_simps mongo_DecodeHeader_def le32_def payload_decoder_def
  payload_basic_def extractMessage_def dispatch_def

lemma Write_sample_unknown:
  "Write mongo now sample_unknown (NewExtractor mongo sample_context) =
     (\<lparr>context_d = sample_context, header = Some (sample_header 20 3 0 65535),
       buf = sample_unknown, extract_f = extractMessage mongo\<rparr>,
      20, Some (UnknownOpcode 65535), [])"
  by (simp add: Write_def NewExtractor_def init_def sample_defs mongo_eval)

lemma Write_sample_update:
  "Write mongo now sample_update (NewExtractor mongo sample_context) =
     (\<lparr>context_d = sample_context, header = Some (sample_header 20 4 0 2001),
       buf = sample_update, extract_f = extractMessage mongo\<rparr>,
      20, Some (InitMongoMessage (NotImplemented ''OpUpdate'')), [])"
  by (simp add: Write_def NewExtractor_def init_def sample_defs mongo_eval)

lemma Write_sample_query:
  "Write mongo now sample_query (NewExtractor mongo sample_context) =
     (\<lparr>context_d = sample_context\<lparr>User := ''alice''\<rparr>, header = None,
       buf = [], extract_f = extractMessage mongo\<rparr>,
      20, None,
      [\<lparr>Type = ''mongo'', Ip = ''10.0.0.7:40000'',
        Data = DataMessage \<lparr>DBUser = ''alice'', DB = ''db'', Collection = ''coll'', Op = ''op'',
                 DocID = ''id'', MongoMsg = [1, 2, 3, 4]\<rparr>,
        PrimaryKey = ''id'', Timestamp = now, Identity = ''alice''\<rparr>])"
  by (simp add: Write_def NewExtractor_def init_def reset_def sample_defs mongo_eval)



lemma length_samples:
  "length sample_query = 20" "length sample_msg = 20" "length sample_unknown = 20"
  "length sample_update = 20" "length sample_bare = 16" "length sample_small = 17"
  by (simp_all add: sample_defs)

lemma frames_sample_query: "frames mongo sample_query (sample_header 20 1 (- 1) 2004)"
  by (rule frames_mongo) (simp_all add: sample_defs mongo_DecodeHeader_def le32_def)


lemma extract_sample_query:
  "extractMessage mongo (sample_header 20 1 (- 1) 2004) sample_query = Inr (basic_message mongo [1, 2, 3, 4])"
  by (simp add: sample_defs mongo_eval basic_message_def)







section \<open>Message extraction\<close>

lemma later_opcodes_differ:
  assumes "distinct (recognized M)"
  shows "distinct [OpMsg M, OpCommandReply M, OpCommand M, OpKillCursors M, OpDelete M,
     OpGetMore M, OpQuery M, Reserved M, OpInsert M, OpUpdate M, OpReply M]"
proof -
  have "distinct (rev (recognized M))" using assms by (simp only: distinct_rev)
  then show ?thesis by (simp only: recognized_def rev.simps append.simps)
qed

lemma dispatch_unknown:
  "OpCode h \<notin> set (recognized M) \<Longrightarrow> dispatch M h b = None"
  by (simp add: dispatch_def recognized_def)


lemma dispatch_unimplemented:
  assumes d: "distinct (recognized M)" and u: "(OpCode h, name) \<in> set (unimplemented M)"
  shows "dispatch M h b = Some (Inl (NotImplemented name))"
proof -
  from u have "OpCode h = OpUpdate M \<and> name = ''OpUpdate'' \<or>
      OpCode h = OpInsert M \<and> name = ''OpInsert'' \<or>
      OpCode h = Reserved M \<and> name = ''Reserved'' \<or>
      OpCode h = OpGetMore M \<and> name = ''OpGetMore'' \<or>
      OpCode h = OpDelete M \<and> name = ''OpDelete'' \<or>
      OpCode h = OpKillCursors M \<and> name = ''OpKillCursors'' \<or>
      OpCode h = OpCommand M \<and> name = ''OpCommand'' \<or>
      OpCode h = OpCommandReply M \<and> name = ''OpCommandReply''"
    by (simp only: unimplemented_def list.set insert_iff empty_iff prod.inject simp_thms)
  then show ?thesis
    using later_opcodes_differ [OF d] by (elim disjE conjE) (simp_all add: dispatch_def)
qed

lemma dispatch_implemented:
  assumes d: "distinct (recognized M)" and u: "(OpCode h, dec) \<in> set (implemented M)"
  shows "dispatch M h b = Some (dec h b)"
proof -
  from u have "OpCode h = OpReply M \<and> dec = NewReplyMessage M \<or>
      OpCode h = OpQuery M \<and> dec = NewQueryMessage M \<or>
      OpCode h = OpMsg M \<and> dec = NewMsgMessage M"
    by (simp only: implemented_def list.set insert_iff empty_iff prod.inject simp_thms)
  then show ?thesis
    using later_opcodes_differ [OF d] by (elim disjE conjE) (simp_all add: dispatch_def)
qed

lemma extractMessage_dispatch:
  "length b = unat (MessageSize h) \<Longrightarrow>
   extractMessage M h b =
     (case dispatch M h b of
        None \<Rightarrow> Inl (UnknownOpcode (OpCode h))
      | Some (Inl err) \<Rightarrow> Inl (InitMongoMessage err)
      | Some (Inr mm) \<Rightarrow> Inr (basic_message M mm))"
  by (simp add: extractMessage_def basic_message_def split: option.splits sum.splits prod.splits)

text \<open>
  Claim C5. \<^verbatim>\<open>extractMessage\<close> returns an error whenever the length of the slice
  differs from the size in the header. For a slice of the declared length and opcodes
  that are pairwise different, it returns the error \<open>UnknownOpcode\<close> for every opcode
  outside the recognized set, the error \<open>NotImplemented\<close> with the opcode's name (wrapped
  as every error of this stage is) for each recognized but unimplemented opcode, and for
  an implemented opcode what its decoder returns: the decoder's error, wrapped, or the
  message whose derived fields are those of \<^verbatim>\<open>ExtractBasic\<close> on the decoded message.
\<close>

theorem extractMessage_cases:
  assumes "distinct (recognized M)"
  shows "(length b \<noteq> unat (MessageSize h) \<longrightarrow>
            extractMessage M h b = Inl (LengthMismatch (length b) (unat (MessageSize h)))) \<and>
         (length b = unat (MessageSize h) \<longrightarrow>
            (OpCode h \<notin> set (recognized M) \<longrightarrow>
               extractMessage M h b = Inl (UnknownOpcode (OpCode h))) \<and>
            (\<forall>name. (OpCode h, name) \<in> set (unimplemented M) \<longrightarrow>
               extractMessage M h b = Inl (InitMongoMessage (NotImplemented name))) \<and>
            (\<forall>dec. (OpCode h, dec) \<in> set (implemented M) \<longrightarrow>
               extractMessage M h b =
                 (case dec h b of
                    Inl err \<Rightarrow> Inl (InitMongoMessage err)
                  | Inr mm \<Rightarrow> Inr (basic_message M mm))))"
proof (intro conjI impI allI)
  show "extractMessage M h b = Inl (LengthMismatch (length b) (unat (MessageSize h)))"
    if "length b \<noteq> unat (MessageSize h)"
    using that by (simp add: extractMessage_def)
  show "extractMessage M h b = Inl (UnknownOpcode (OpCode h))"
    if "length b = unat (MessageSize h)" "OpCode h \<notin> set (recognized M)"
    using that by (simp add: extractMessage_dispatch dispatch_unknown)
  show "extractMessage M h b = Inl (InitMongoMessage (NotImplemented name))"
    if "length b = unat (MessageSize h)" "(OpCode h, name) \<in> set (unimplemented M)" for name
    using that(1) dispatch_unimplemented [OF assms that(2), of b]
    by (simp add: extractMessage_dispatch)
  show "extractMessage M h b =
          (case dec h b of Inl err \<Rightarrow> Inl (InitMongoMessage err) | Inr mm \<Rightarrow> Inr (basic_message M mm))"
    if "length b = unat (MessageSize h)" "(OpCode h, dec) \<in> set (implemented M)" for dec
    using that(1) dispatch_implemented [OF assms that(2), of b]
    by (simp add: extractMessage_dispatch)
qed

theorem extractMessage_cases_witness:
  "distinct (recognized mongo) \<and>
   extractMessage mongo (sample_header 20 3 0 65535) sample_unknown = Inl (UnknownOpcode 65535) \<and>
   extractMessage mongo (sample_header 20 4 0 2001) sample_update =
     Inl (InitMongoMessage (NotImplemented ''OpUpdate'')) \<and>
   extractMessage mongo (sample_header 20 1 (- 1) 2004) sample_query =
     Inr \<lparr>DBUser = ''alice'', DB = ''db'', Collection = ''coll'', Op = ''op'', DocID = ''id'',
          MongoMsg = [1, 2, 3, 4]\<rparr> \<and>
   extractMessage mongo (sample_header 21 1 (- 1) 2004) sample_query = Inl (LengthMismatch 20 21)"
  using extractMessage_cases [OF distinct_recognized_mongo, of sample_unknown "sample_header 20 3 0 65535"]
    extractMessage_cases [OF distinct_recognized_mongo, of sample_update "sample_header 20 4 0 2001"]
    extractMessage_cases [OF distinct_recognized_mongo, of sample_query "sample_header 20 1 (- 1) 2004"]
    extractMessage_cases [OF distinct_recognized_mongo, of sample_query "sample_header 21 1 (- 1) 2004"]
  by (simp add: distinct_recognized_mongo sample_header_def sample_unknown_def sample_update_def
      sample_query_def recognized_def unimplemented_def implemented_def mongo_simps
      payload_decoder_def basic_message_def payload_basic_def)

section \<open>Header decoding and waiting for the body\<close>




section \<open>Full consumption\<close>

text \<open>
  Claim C7, as amended. \<^verbatim>\<open>Extractor.Write\<close>, which serves both directions in the
  later file, returns \<open>n = len(p)\<close> on every call, whether a message completes or not
  and whether an error is returned or not. \<^verbatim>\<open>ResponseExtractor.Write\<close> of
  \<^verbatim>\<open>extractor.go\<close> returns \<open>len(p)\<close> and never an error. The outgoing writer that
  \<^verbatim>\<open>GetInstance\<close> of the later file builds is an \<^verbatim>\<open>Extractor\<close> like the incoming
  one, so it returns the errors that the incoming one returns.
\<close>

theorem Write_full_consumption:
  "fst (snd (Write M now p e)) = length p \<and>
   ResponseExtractor_Write p r = (r, length p, None) \<and>
   GetOutgoingWriter (GetInstance M c) = NewExtractor M c \<and>
   GetIncomingWriter (GetInstance M c) = NewExtractor M c"
  by (simp add: Write_n ResponseExtractor_Write_def GetOutgoingWriter_def GetIncomingWriter_def
      GetInstance_def)

text \<open>
  The claim as stated fails for the outgoing writer of the later file: fed a complete
  message with the opcode \<open>0xFFFF\<close>, it returns an error.
\<close>

theorem outgoing_writer_error_counterexample:
  "snd (Write mongo 1 sample_unknown (GetOutgoingWriter (GetInstance mongo sample_context))) =
     (20, Some (UnknownOpcode 65535), [])"
  by (simp add: Write_def GetOutgoingWriter_def GetInstance_def NewExtractor_def init_def
      sample_defs mongo_eval)

section \<open>Extraction failure\<close>

text \<open>
  What a failed extraction leaves behind, for every package and every extractor: the
  call returns the error without the reset step, so the buffer is the old buffer with
  the chunk appended and the header stays held; and while the buffer stays below \<open>2^32\<close>
  bytes the next call finds the same header and the same first bytes and returns the
  same error, whatever bytes it brings.
\<close>

lemma extraction_failure_keeps_state:
  assumes h: "holds M e p h"
    and sz: "unat (MessageSize h) \<le> length (buf e @ p)"
    and bd: "length (buf e @ p @ q) < 2 ^ 32"
    and ex: "extract_f e h (take (unat (MessageSize h)) (buf e @ p)) = Inl err"
  shows "Write M now p e = (e\<lparr>buf := buf e @ p, header := Some h\<rparr>, length p, Some err, []) \<and>
         Write M now' q (e\<lparr>buf := buf e @ p, header := Some h\<rparr>) =
           (e\<lparr>buf := buf e @ p @ q, header := Some h\<rparr>, length q, Some err, [])"
proof
  from bd have bd1: "length (buf e @ p) < 2 ^ 32" by simp
  from h sz bd1 ex
  show "Write M now p e = (e\<lparr>buf := buf e @ p, header := Some h\<rparr>, length p, Some err, [])"
    by (rule Write_extract_error)
  let ?e = "e\<lparr>buf := buf e @ p, header := Some h\<rparr>"
  have h': "holds M ?e q h" by (simp add: holds_def)
  have sz': "unat (MessageSize h) \<le> length (buf ?e @ q)" using sz by simp
  have bd': "length (buf ?e @ q) < 2 ^ 32" using bd by simp
  have ex': "extract_f ?e h (take (unat (MessageSize h)) (buf ?e @ q)) = Inl err"
    using ex sz by simp
  from Write_extract_error [OF h' sz' bd' ex', of now']
  show "Write M now' q ?e = (e\<lparr>buf := buf e @ p @ q, header := Some h\<rparr>, length q, Some err, [])"
    by simp
qed

text \<open>
  Claim C1 says that a call whose extraction fails, for an unrecognized or for a
  recognized but unimplemented opcode, still performs the reset step, so that a valid
  message that follows on the same stream is decoded normally. \<^verbatim>\<open>Write\<close> returns
  before it reaches \<^verbatim>\<open>reset\<close>: after a complete message with the opcode \<open>0xFFFF\<close>, or
  with the opcode of an update, the extractor keeps the 20 bytes and the header, and the
  query that follows is answered with the same error instead of being decoded. Fed to a
  fresh extractor, the same query is decoded and emitted.
\<close>

theorem failed_extraction_is_not_reset:
  "feed mongo (NewExtractor mongo sample_context) [(1, sample_unknown), (2, sample_query)] =
     (\<lparr>context_d = sample_context, header = Some (sample_header 20 3 0 65535),
       buf = sample_unknown @ sample_query, extract_f = extractMessage mongo\<rparr>,
      [(20, Some (UnknownOpcode 65535), []), (20, Some (UnknownOpcode 65535), [])]) \<and>
   feed mongo (NewExtractor mongo sample_context) [(1, sample_update), (2, sample_query)] =
     (\<lparr>context_d = sample_context, header = Some (sample_header 20 4 0 2001),
       buf = sample_update @ sample_query, extract_f = extractMessage mongo\<rparr>,
      [(20, Some (InitMongoMessage (NotImplemented ''OpUpdate'')), []),
       (20, Some (InitMongoMessage (NotImplemented ''OpUpdate'')), [])]) \<and>
   emitted (snd (feed mongo (NewExtractor mongo sample_context) [(2, sample_query)])) =
     [log_event sample_context 2 (basic_message mongo [1, 2, 3, 4])]"
proof (intro conjI)
  have a: "Write mongo 2 sample_query
        \<lparr>context_d = sample_context, header = Some (sample_header 20 3 0 65535),
          buf = sample_unknown, extract_f = extractMessage mongo\<rparr> =
      (\<lparr>context_d = sample_context, header = Some (sample_header 20 3 0 65535),
          buf = sample_unknown @ sample_query, extract_f = extractMessage mongo\<rparr>,
       20, Some (UnknownOpcode 65535), [])"
    by (simp add: Write_def sample_defs mongo_eval)
  show "feed mongo (NewExtractor mongo sample_context) [(1, sample_unknown), (2, sample_query)] =
     (\<lparr>context_d = sample_context, header = Some (sample_header 20 3 0 65535),
       buf = sample_unknown @ sample_query, extract_f = extractMessage mongo\<rparr>,
      [(20, Some (UnknownOpcode 65535), []), (20, Some (UnknownOpcode 65535), [])])"
    by (simp add: Write_sample_unknown a)
  have b: "Write mongo 2 sample_query
        \<lparr>context_d = sample_context, header = Some (sample_header 20 4 0 2001),
          buf = sample_update, extract_f = extractMessage mongo\<rparr> =
      (\<lparr>context_d = sample_context, header = Some (sample_header 20 4 0 2001),
          buf = sample_update @ sample_query, extract_f = extractMessage mongo\<rparr>,
       20, Some (InitMongoMessage (NotImplemented ''OpUpdate'')), [])"
    by (simp add: Write_def sample_defs mongo_eval)
  show "feed mongo (NewExtractor mongo sample_context) [(1, sample_update), (2, sample_query)] =
     (\<lparr>context_d = sample_context, header = Some (sample_header 20 4 0 2001),
       buf = sample_update @ sample_query, extract_f = extractMessage mongo\<rparr>,
      [(20, Some (InitMongoMessage (NotImplemented ''OpUpdate'')), []),
       (20, Some (InitMongoMessage (NotImplemented ''OpUpdate'')), [])])"
    by (simp add: Write_sample_update b)
  show "emitted (snd (feed mongo (NewExtractor mongo sample_context) [(2, sample_query)])) =
     [log_event sample_context 2 (basic_message mongo [1, 2, 3, 4])]"
    by (simp add: Write_sample_query emitted_def)
      (simp add: log_event_def basic_message_def identity_of_def mongo_simps payload_basic_def
        sample_context_def)
qed

section \<open>The state after an error\<close>









section \<open>Headers that declare less than a header\<close>







section \<open>Chunk boundaries\<close>

text \<open>
  Claim C2, as amended. Let \<open>m\<close> be a message whose header \<open>h\<close> declares its length,
  whose payload is not empty (\<open>m\<close> is longer than the header) and which
  \<^verbatim>\<open>extractMessage\<close> decodes. Fed to a fresh extractor in chunks that split \<open>m\<close> at
  arbitrary boundaries (empty chunks included), every call reports its whole chunk and
  no error, exactly one event is emitted, and its message, identity and primary key do
  not depend on the boundaries; only the timestamp is that of the call that completed the
  message. Afterwards the buffer is empty and no header is held.
\<close>

theorem chunk_boundary_invariance:
  assumes "frames M m h" and "HeaderLen M < length m"
    and "extractMessage M h m = Inr msg0" and "concat (map snd cs) = m"
  shows "\<exists>t rs. feed M (NewExtractor M c) cs = (idle M (c\<lparr>User := identity_of c msg0\<rparr>), rs) \<and>
           emitted rs = [log_event c t msg0] \<and> t \<in> fst ` set cs \<and>
           errors rs = map (\<lambda>_. None) cs \<and> map fst rs = map (\<lambda>x. length (snd x)) cs"
proof -
  have "0 < length m" using assms(2) by linarith
  moreover have "concat (map snd cs) = drop 0 m" using assms(4) by simp
  ultimately show ?thesis
    using feed_mid [OF assms(1-3), of 0 cs c] by (simp add: mid_0)
qed

theorem chunk_boundary_invariance_witness:
  "frames mongo sample_query (sample_header 20 1 (- 1) 2004) \<and>
   (\<exists>t rs. feed mongo (NewExtractor mongo sample_context)
              [(1, take 12 sample_query), (2, drop 12 sample_query)] =
             (idle mongo (sample_context\<lparr>User := ''alice''\<rparr>), rs) \<and>
           emitted rs = [log_event sample_context t (basic_message mongo [1, 2, 3, 4])] \<and>
           errors rs = [None, None] \<and> map fst rs = [12, 8])"
proof -
  have l: "HeaderLen mongo < length sample_query" by (simp add: mongo_simps sample_defs)
  have c: "concat (map snd [(1::int, take 12 sample_query), (2, drop 12 sample_query)]) = sample_query"
    by simp
  have i: "identity_of sample_context (basic_message mongo [1, 2, 3, 4]) = ''alice''"
    by (simp add: identity_of_def basic_message_def mongo_simps payload_basic_def)
  from chunk_boundary_invariance [OF frames_sample_query l extract_sample_query c, of sample_context]
  show ?thesis
    by (auto simp add: frames_sample_query i length_samples)
qed

text \<open>
  The claim as stated fails for a message that consists of its header only: the size 16 is
  a valid size and the instance decodes the message, but a fresh extractor that is fed
  these 16 bytes, whole or in two halves, never decodes the header, because the buffer
  is not longer than a header, and emits nothing.
\<close>

theorem bare_header_counterexample:
  "mongo_DecodeHeader sample_bare = Inr (sample_header 16 5 0 1) \<and>
   extractMessage mongo (sample_header 16 5 0 1) sample_bare = Inr (basic_message mongo []) \<and>
   feed mongo (NewExtractor mongo sample_context) [(1, sample_bare)] =
     ((NewExtractor mongo sample_context)\<lparr>buf := sample_bare\<rparr>, [(16, None, [])]) \<and>
   feed mongo (NewExtractor mongo sample_context) [(1, take 8 sample_bare), (2, drop 8 sample_bare)] =
     ((NewExtractor mongo sample_context)\<lparr>buf := sample_bare\<rparr>, [(8, None, []), (8, None, [])])"
  by (simp add: Write_def NewExtractor_def sample_defs mongo_eval basic_message_def)

section \<open>Several messages in one chunk\<close>






section \<open>Dialog identity\<close>





end
